theory Spec2Isabelle
  imports Main
begin

section \<open>Attendance entry: the data of the component\<close>

text \<open>
  The record entry code of the repository is the React component
  \<^verbatim>\<open>TeacherAttendance\<close> (src/components/teacher/TeacherAttendance.tsx) with the request
  and response shapes of src/services/teacher.service.ts. The component keeps its buffer in
  \<^verbatim>\<open>useState\<close> cells; the model passes one record holding these cells through every
  handler and returns, next to the new cells, the calls the handler made to its
  collaborators (service, toast, console) in the order it made them.
\<close>

text \<open>The status enumeration \<^verbatim>\<open>'PRESENT' | 'ABSENT' | 'LATE' | 'HALF_DAY' | 'EXCUSED'\<close>.\<close>

datatype status = PRESENT | ABSENT | LATE | HALF_DAY | EXCUSED

text \<open>The text a status has inside a template string.\<close>

fun status_text :: "status \<Rightarrow> string" where
  "status_text PRESENT = ''PRESENT''"
| "status_text ABSENT = ''ABSENT''"
| "status_text LATE = ''LATE''"
| "status_text HALF_DAY = ''HALF_DAY''"
| "status_text EXCUSED = ''EXCUSED''"

text \<open>
  \<^verbatim>\<open>AttendanceStudent\<close> (teacher.service.ts, lines 380-386): one roster member as the
  server sends it. The interface declares \<^verbatim>\<open>defaultStatus\<close> as a required field, but the
  value is read from a JSON response that nothing checks at run time; a member the server
  sent without a default has \<^verbatim>\<open>undefined\<close> there, which is \<open>None\<close> here.
\<close>

record AttendanceStudent =
  id' :: string
  firstName :: string
  lastName :: string
  rollNumber :: string
  defaultStatus :: "status option"

text \<open>
  \<^verbatim>\<open>StudentAttendance\<close> (TeacherAttendance.tsx, lines 14-20): one record of the buffer.
  The status is whatever \<^verbatim>\<open>loadStudents\<close> copied from \<^verbatim>\<open>defaultStatus\<close> or a handler
  stored, hence the same option type.
\<close>

record StudentAttendance =
  id' :: string
  rollNumber :: string
  firstName :: string
  lastName :: string
  status :: "status option"

text \<open>
  \<^verbatim>\<open>MarkAttendanceRequest\<close> (teacher.service.ts, lines 393-403) and its entries. The
  entry's \<^verbatim>\<open>status\<close> and the request's \<^verbatim>\<open>attendanceDate\<close> are \<open>entryStatus\<close> and
  \<open>requestDate\<close> here, to keep them apart from the fields of the buffer. An optional
  field that is left out is \<open>None\<close>.
\<close>

record AttendanceEntry =
  studentId :: string
  entryStatus :: "status option"
  remarks :: "string option"

record MarkAttendanceRequest =
  classId :: string
  sectionId :: "string option"
  requestDate :: "string option"
  allowOverride :: "bool option"
  entries :: "AttendanceEntry list"

text \<open>
  What a rejected promise carries. The component only asks whether the error is an
  \<^verbatim>\<open>ApiException\<close>; for one it shows \<^verbatim>\<open>getUserFriendlyError(error)\<close>, a function of
  utils/errors whose result is carried here as the exception's text.
\<close>

datatype error = ApiException string | OtherError

text \<open>The outcome of an awaited service call: the promise resolves or rejects.\<close>

datatype 'a response = Resolved 'a | Rejected error

text \<open>The calls a handler makes to its collaborators.\<close>

datatype effect =
    GetAttendanceStudents string string
  | MarkAttendance MarkAttendanceRequest
  | ToastError string
  | ToastSuccess string
  | ToastInfo string
  | ConsoleError string

text \<open>
  The \<^verbatim>\<open>useState\<close> cells of the component (lines 23-31), without \<^verbatim>\<open>classes\<close>, which only
  feeds the class selector.
\<close>

record TeacherAttendance =
  selectedClassId :: string
  selectedSectionId :: string
  attendanceDate :: string
  students :: "StudentAttendance list"
  searchQuery :: string
  isSaving :: bool
  isLoading :: bool
  hasChanges :: bool

text \<open>The cells at mount; \<open>today\<close> is \<^verbatim>\<open>new Date().toISOString().split('T')[0]\<close>.\<close>

definition initial :: "string \<Rightarrow> TeacherAttendance" where
  "initial today =
     \<lparr>selectedClassId = [], selectedSectionId = [], attendanceDate = today,
      students = [], searchQuery = [], isSaving = False, isLoading = False,
      hasChanges = False\<rparr>"

section \<open>The handlers\<close>

text \<open>The object \<^verbatim>\<open>loadStudents\<close> builds for one roster member (lines 61-67).\<close>

definition toStudentAttendance :: "AttendanceStudent \<Rightarrow> StudentAttendance" where
  "toStudentAttendance s =
     \<lparr>id' = AttendanceStudent.id' s,
      rollNumber = AttendanceStudent.rollNumber s,
      firstName = AttendanceStudent.firstName s,
      lastName = AttendanceStudent.lastName s,
      status = defaultStatus s\<rparr>"

text \<open>
  \<^verbatim>\<open>loadStudents\<close> (lines 56-74). The argument is the outcome of
  \<^verbatim>\<open>teacherService.getAttendanceStudents\<close>; \<open>Resolved None\<close> is a response whose
  \<^verbatim>\<open>data?.students\<close> is missing, for which the code takes \<^verbatim>\<open>[]\<close>. The handler never
  writes \<^verbatim>\<open>hasChanges\<close>.
\<close>

fun loadStudents ::
  "AttendanceStudent list option response \<Rightarrow> TeacherAttendance \<Rightarrow> TeacherAttendance \<times> effect list"
where
  "loadStudents (Resolved d) st =
     (let studentsData = (case d of None \<Rightarrow> [] | Some xs \<Rightarrow> xs) in
      (st\<lparr>isLoading := True\<rparr>
         \<lparr>students := map toStudentAttendance studentsData\<rparr>
         \<lparr>isLoading := False\<rparr>,
       [GetAttendanceStudents (selectedClassId st) (selectedSectionId st)]))"
| "loadStudents (Rejected e) st =
     (st\<lparr>isLoading := True\<rparr>\<lparr>isLoading := False\<rparr>,
      [GetAttendanceStudents (selectedClassId st) (selectedSectionId st),
       ConsoleError ''Failed to load students:'',
       ToastError ''Failed to load students''])"

text \<open>\<^verbatim>\<open>handleStatusChange\<close> (lines 89-92).\<close>

definition handleStatusChange :: "string \<Rightarrow> status \<Rightarrow> TeacherAttendance \<Rightarrow> TeacherAttendance" where
  "handleStatusChange studentId' status' st =
     st\<lparr>students :=
          map (\<lambda>s. if id' s = studentId' then s\<lparr>status := Some status'\<rparr> else s) (students st)\<rparr>
       \<lparr>hasChanges := True\<rparr>"

text \<open>\<^verbatim>\<open>handleMarkAll\<close> (lines 94-98).\<close>

definition handleMarkAll :: "status \<Rightarrow> TeacherAttendance \<Rightarrow> TeacherAttendance \<times> effect list" where
  "handleMarkAll status' st =
     (st\<lparr>students := map (\<lambda>s. s\<lparr>status := Some status'\<rparr>) (students st)\<rparr>
        \<lparr>hasChanges := True\<rparr>,
      [ToastInfo (''Marked all students as '' @ status_text status')])"

text \<open>The request \<^verbatim>\<open>handleSaveAttendance\<close> passes to \<^verbatim>\<open>markAttendance\<close> (lines 108-116).\<close>

definition toEntry :: "StudentAttendance \<Rightarrow> AttendanceEntry" where
  "toEntry s = \<lparr>studentId = id' s, entryStatus = status s, remarks = None\<rparr>"

definition saveRequest :: "TeacherAttendance \<Rightarrow> MarkAttendanceRequest" where
  "saveRequest st =
     \<lparr>classId = selectedClassId st,
      sectionId = (if selectedSectionId st = [] then None else Some (selectedSectionId st)),
      requestDate = Some (attendanceDate st),
      allowOverride = None,
      entries = map toEntry (students st)\<rparr>"

text \<open>The toast of the \<^verbatim>\<open>catch\<close> block (line 121).\<close>

fun saveErrorText :: "error \<Rightarrow> string" where
  "saveErrorText (ApiException friendly) = friendly"
| "saveErrorText OtherError = ''Failed to save attendance''"

text \<open>
  \<^verbatim>\<open>handleSaveAttendance\<close> (lines 100-125). The argument is the outcome of the awaited
  \<^verbatim>\<open>teacherService.markAttendance\<close>; it is not looked at when no class is selected,
  since the handler returns before the call.
\<close>

definition handleSaveAttendance ::
  "unit response \<Rightarrow> TeacherAttendance \<Rightarrow> TeacherAttendance \<times> effect list"
where
  "handleSaveAttendance r st =
     (if selectedClassId st = [] then (st, [ToastError ''Please select a class''])
      else
        (case r of
           Resolved _ \<Rightarrow>
             (st\<lparr>isSaving := True\<rparr>\<lparr>hasChanges := False\<rparr>\<lparr>isSaving := False\<rparr>,
              [MarkAttendance (saveRequest st), ToastSuccess ''Attendance saved successfully!''])
         | Rejected e \<Rightarrow>
             (st\<lparr>isSaving := True\<rparr>\<lparr>isSaving := False\<rparr>,
              [MarkAttendance (saveRequest st),
               ConsoleError ''Failed to save attendance:'',
               ToastError (saveErrorText e)])))"

text \<open>The \<^verbatim>\<open>disabled\<close> attribute of the Save button (line 292).\<close>

definition saveDisabled :: "TeacherAttendance \<Rightarrow> bool" where
  "saveDisabled st = (\<not> hasChanges st \<or> isSaving st)"

text \<open>The class selector's \<^verbatim>\<open>onValueChange\<close> (lines 148-151).\<close>

definition selectClass :: "string \<Rightarrow> TeacherAttendance \<Rightarrow> TeacherAttendance" where
  "selectClass v st = st\<lparr>selectedClassId := v\<rparr>\<lparr>selectedSectionId := []\<rparr>"

section \<open>Dirty records and requests sent\<close>

text \<open>
  The component has no flag per record: \<^verbatim>\<open>hasChanges\<close> marks the whole buffer (it enables
  Save and shows the "unsaved changes" notice). So the dirty records of a state are all of
  its records when the flag is set and none when it is clear.
\<close>

definition dirtyEntries :: "TeacherAttendance \<Rightarrow> StudentAttendance list" where
  "dirtyEntries st = (if hasChanges st then students st else [])"

text \<open>The bulk requests among the calls a handler made.\<close>

fun posted :: "effect list \<Rightarrow> MarkAttendanceRequest list" where
  "posted [] = []"
| "posted (MarkAttendance q # fx) = q # posted fx"
| "posted (_ # fx) = posted fx"

section \<open>Sequential sessions\<close>

text \<open>
  What can happen to a mounted component when every handler runs to its end before the
  next thing happens: the user picks a class or a section or a date, the roster fetch
  started by the \<^verbatim>\<open>useEffect\<close> at lines 37-41 is made and answered (the effect calls
  \<^verbatim>\<open>loadStudents\<close> only when a class is selected), the user ticks a status box, presses
  a Quick Mark button, or saves and gets the answer. Sessions in which something happens
  while a request is awaited are the subject of the next section.
\<close>

datatype event =
    SelectClass string
  | SelectSection string
  | ChangeDate string
  | LoadStudents "AttendanceStudent list option response"
  | StatusChange string status
  | MarkAll status
  | SaveAttendance "unit response"

fun step :: "event \<Rightarrow> TeacherAttendance \<Rightarrow> TeacherAttendance \<times> effect list" where
  "step (SelectClass v) st = (selectClass v st, [])"
| "step (SelectSection v) st = (st\<lparr>selectedSectionId := v\<rparr>, [])"
| "step (ChangeDate v) st = (st\<lparr>attendanceDate := v\<rparr>, [])"
| "step (LoadStudents r) st = (if selectedClassId st = [] then (st, []) else loadStudents r st)"
| "step (StatusChange i s) st = (handleStatusChange i s st, [])"
| "step (MarkAll s) st = handleMarkAll s st"
| "step (SaveAttendance r) st = handleSaveAttendance r st"

fun run :: "event list \<Rightarrow> TeacherAttendance \<Rightarrow> TeacherAttendance \<times> effect list" where
  "run [] st = (st, [])"
| "run (e # es) st =
     (case step e st of (st1, fx1) \<Rightarrow>
        (case run es st1 of (st2, fx2) \<Rightarrow> (st2, fx1 @ fx2)))"

section \<open>Sessions with requests in flight\<close>

text \<open>
  \<^verbatim>\<open>handleSaveAttendance\<close> and \<^verbatim>\<open>loadStudents\<close> are \<^verbatim>\<open>async\<close>: each gives control
  back at its \<^verbatim>\<open>await\<close> (lines 108 and 59), and the status boxes, the Quick Mark
  buttons and the selectors stay usable until the promise settles. So each of the two
  handlers is also given in two halves: what it does up to the \<^verbatim>\<open>await\<close>, on the cells
  as they are when it is called, and what it does once the promise has settled, on the
  cells as they are then (the second half only calls setters).
\<close>












section \<open>Concrete rosters and sessions\<close>

definition s1 :: AttendanceStudent where
  "s1 = \<lparr>AttendanceStudent.id' = ''s1'', AttendanceStudent.firstName = ''Ada'',
         AttendanceStudent.lastName = ''Khan'', AttendanceStudent.rollNumber = ''1'',
         defaultStatus = Some PRESENT\<rparr>"

text \<open>A roster member for whom the server sent no default.\<close>

definition s2 :: AttendanceStudent where
  "s2 = \<lparr>AttendanceStudent.id' = ''s2'', AttendanceStudent.firstName = ''Bilal'',
         AttendanceStudent.lastName = ''Aziz'', AttendanceStudent.rollNumber = ''2'',
         defaultStatus = None\<rparr>"

definition s3 :: AttendanceStudent where
  "s3 = \<lparr>AttendanceStudent.id' = ''s3'', AttendanceStudent.firstName = ''Chen'',
         AttendanceStudent.lastName = ''Li'', AttendanceStudent.rollNumber = ''3'',
         defaultStatus = Some LATE\<rparr>"

text \<open>A mounted component after class \<^verbatim>\<open>c1\<close> was picked and its roster arrived.\<close>

definition loaded1 :: TeacherAttendance where
  "loaded1 =
     fst (run [SelectClass ''c1'', LoadStudents (Resolved (Some [s1]))] (initial ''2024-05-01''))"

definition loaded13 :: TeacherAttendance where
  "loaded13 =
     fst (run [SelectClass ''c1'', LoadStudents (Resolved (Some [s1, s3]))] (initial ''2024-05-01''))"

text \<open>A class is picked whose roster is empty, and All Present is pressed.\<close>

definition marked_empty :: TeacherAttendance where
  "marked_empty =
     fst (run [SelectClass ''c1'', LoadStudents (Resolved (Some [])), MarkAll PRESENT]
            (initial ''2024-05-01''))"




text \<open>The user changes a status and, without saving, picks another class.\<close>

definition session_reload :: "event list" where
  "session_reload =
     [SelectClass ''c1'', LoadStudents (Resolved (Some [s1])), StatusChange ''s1'' ABSENT,
      SelectClass ''c2'', LoadStudents (Resolved (Some [s3]))]"

text \<open>
  The user saves, the server accepts, the user edits again and saves again for the same
  class and date; this time the server rejects.
\<close>

definition session_resubmit :: "event list" where
  "session_resubmit =
     [SelectClass ''c1'', LoadStudents (Resolved (Some [s1])), StatusChange ''s1'' ABSENT,
      SaveAttendance (Resolved ()), StatusChange ''s1'' LATE,
      SaveAttendance (Rejected (ApiException ''Attendance already marked''))]"

section \<open>Facts shared by the proofs\<close>

lemmas eval_defs = initial_def selectClass_def toStudentAttendance_def s1_def s2_def s3_def
  handleStatusChange_def handleMarkAll_def handleSaveAttendance_def saveRequest_def toEntry_def
  dirtyEntries_def


lemma loaded1_eq:
  "loaded1 = \<lparr>selectedClassId = ''c1'', selectedSectionId = [], attendanceDate = ''2024-05-01'',
      students = [\<lparr>id' = ''s1'', rollNumber = ''1'', firstName = ''Ada'', lastName = ''Khan'',
                   status = Some PRESENT\<rparr>],
      searchQuery = [], isSaving = False, isLoading = False, hasChanges = False\<rparr>"
  by (simp add: loaded1_def initial_def selectClass_def toStudentAttendance_def s1_def)

lemma loaded13_eq:
  "loaded13 = \<lparr>selectedClassId = ''c1'', selectedSectionId = [], attendanceDate = ''2024-05-01'',
      students = [\<lparr>id' = ''s1'', rollNumber = ''1'', firstName = ''Ada'', lastName = ''Khan'',
                   status = Some PRESENT\<rparr>,
                  \<lparr>id' = ''s3'', rollNumber = ''3'', firstName = ''Chen'', lastName = ''Li'',
                   status = Some LATE\<rparr>],
      searchQuery = [], isSaving = False, isLoading = False, hasChanges = False\<rparr>"
  by (simp add: loaded13_def initial_def selectClass_def toStudentAttendance_def s1_def s3_def)

lemma handleSaveAttendance_rejected_students:
  "students (fst (handleSaveAttendance (Rejected e) st)) = students st"
  by (simp add: handleSaveAttendance_def)

lemma handleSaveAttendance_rejected_hasChanges:
  "hasChanges (fst (handleSaveAttendance (Rejected e) st)) = hasChanges st"
  by (simp add: handleSaveAttendance_def)

lemma posted_handleSaveAttendance:
  "selectedClassId st \<noteq> [] \<Longrightarrow> posted (snd (handleSaveAttendance r st)) = [saveRequest st]"
  by (cases r) (simp_all add: handleSaveAttendance_def)

lemma map_status_unknown:
  "i \<notin> set (map id' xs) \<Longrightarrow>
   map (\<lambda>r. if id' r = i then r\<lparr>status := Some s\<rparr> else r) xs = xs"
  by (induction xs) auto

lemma marked_empty_eq:
  "marked_empty = \<lparr>selectedClassId = ''c1'', selectedSectionId = [], attendanceDate = ''2024-05-01'',
      students = [], searchQuery = [], isSaving = False, isLoading = False, hasChanges = True\<rparr>"
  by (simp add: marked_empty_def initial_def selectClass_def handleMarkAll_def)




section \<open>The bulk request\<close>

text \<open>
  C1, as stated, fails: in \<open>loaded1\<close> nothing was edited since the roster arrived, so no
  record is dirty, and the request \<^verbatim>\<open>handleSaveAttendance\<close> builds still carries an
  entry for the record of \<^verbatim>\<open>s1\<close>.
\<close>

theorem C1_counterexample:
  "dirtyEntries loaded1 = []
   \<and> map entries (posted (snd (handleSaveAttendance (Resolved ()) loaded1)))
       = [[\<lparr>studentId = ''s1'', entryStatus = Some PRESENT, remarks = None\<rparr>]]"
  by (simp add: loaded1_eq dirtyEntries_def handleSaveAttendance_def saveRequest_def toEntry_def)

text \<open>
  C1, amended: with a class selected, \<^verbatim>\<open>handleSaveAttendance\<close> sends a single request
  whose entries are one \<^verbatim>\<open>{studentId, status}\<close> per record of the buffer, in the order
  of the buffer, dirty or not; when the change flag is set these are exactly the dirty
  records.
\<close>

theorem C1_payload_every_record:
  assumes "selectedClassId st \<noteq> []"
  shows "\<exists>q. posted (snd (handleSaveAttendance r st)) = [q]
          \<and> map studentId (entries q) = map id' (students st)
          \<and> map entryStatus (entries q) = map status (students st)
          \<and> (hasChanges st \<longrightarrow> entries q = map toEntry (dirtyEntries st))"
proof -
  have "posted (snd (handleSaveAttendance r st)) = [saveRequest st]"
    using assms by (rule posted_handleSaveAttendance)
  moreover have "map studentId (entries (saveRequest st)) = map id' (students st)"
    by (simp add: saveRequest_def toEntry_def comp_def)
  moreover have "map entryStatus (entries (saveRequest st)) = map status (students st)"
    by (simp add: saveRequest_def toEntry_def comp_def)
  moreover have "hasChanges st \<longrightarrow> entries (saveRequest st) = map toEntry (dirtyEntries st)"
    by (simp add: saveRequest_def dirtyEntries_def)
  ultimately show ?thesis by blast
qed

theorem C1_payload_every_record_witness:
  "selectedClassId (handleStatusChange ''s1'' ABSENT loaded13) \<noteq> []
   \<and> hasChanges (handleStatusChange ''s1'' ABSENT loaded13)
   \<and> (\<exists>q. posted (snd (handleSaveAttendance (Resolved ())
                          (handleStatusChange ''s1'' ABSENT loaded13))) = [q]
          \<and> map studentId (entries q) = [''s1'', ''s3'']
          \<and> map entryStatus (entries q) = [Some ABSENT, Some LATE])"
proof -
  let ?st = "handleStatusChange ''s1'' ABSENT loaded13"
  have c: "selectedClassId ?st \<noteq> []"
    by (simp add: loaded13_eq handleStatusChange_def)
  have h: "hasChanges ?st"
    by (simp add: handleStatusChange_def)
  have i: "map id' (students ?st) = [''s1'', ''s3'']"
    by (simp add: loaded13_eq handleStatusChange_def)
  have t: "map status (students ?st) = [Some ABSENT, Some LATE]"
    by (simp add: loaded13_eq handleStatusChange_def)
  from C1_payload_every_record [OF c, of "Resolved ()"]
  obtain q where "posted (snd (handleSaveAttendance (Resolved ()) ?st)) = [q]"
    and "map studentId (entries q) = map id' (students ?st)"
    and "map entryStatus (entries q) = map status (students ?st)"
    by blast
  with c h i t show ?thesis by metis
qed

section \<open>Failed and empty submissions\<close>

text \<open>
  C2: a submission that fails (the promise of \<^verbatim>\<open>markAttendance\<close> rejects, with whatever
  error) mutates nothing of the buffer: the list of records, hence every status, is the
  one before the call, the change flag is the one before the call, and so the dirty
  records are the same and can be sent again.
\<close>

theorem C2_failed_save_keeps_buffer:
  "students (fst (handleSaveAttendance (Rejected e) st)) = students st
   \<and> hasChanges (fst (handleSaveAttendance (Rejected e) st)) = hasChanges st
   \<and> dirtyEntries (fst (handleSaveAttendance (Rejected e) st)) = dirtyEntries st"
  by (simp add: dirtyEntries_def handleSaveAttendance_rejected_students
      handleSaveAttendance_rejected_hasChanges)

text \<open>
  C3, as stated, fails: \<open>loaded1\<close> has no dirty record, and \<^verbatim>\<open>handleSaveAttendance\<close>
  sends a request all the same. So it does in \<open>marked_empty\<close>, where the dirty set is
  empty because the roster is, and where the Save button is enabled.
\<close>

theorem C3_counterexample:
  "dirtyEntries loaded1 = []
   \<and> length (posted (snd (handleSaveAttendance (Resolved ()) loaded1))) = 1
   \<and> dirtyEntries marked_empty = [] \<and> \<not> saveDisabled marked_empty
   \<and> map entries (posted (snd (handleSaveAttendance (Resolved ()) marked_empty))) = [[]]"
  by (simp add: loaded1_eq marked_empty_eq dirtyEntries_def saveDisabled_def
      handleSaveAttendance_def saveRequest_def)

text \<open>
  C3, amended: \<^verbatim>\<open>handleSaveAttendance\<close> raises no error for an empty dirty set and does
  not look at the dirty set at all. It sends its request exactly when a class is
  selected, whatever the change flag and the records are; without a class it makes no
  network call and changes nothing (it shows "Please select a class"). A clear change
  flag only disables the Save button.
\<close>

theorem C3_empty_submission_gate:
  "posted (snd (handleSaveAttendance r st))
     = (if selectedClassId st = [] then [] else [saveRequest st])
   \<and> (selectedClassId st = [] \<longrightarrow>
        handleSaveAttendance r st = (st, [ToastError ''Please select a class'']))
   \<and> (\<not> hasChanges st \<longrightarrow> saveDisabled st)"
proof -
  have "posted (snd (handleSaveAttendance r st))
          = (if selectedClassId st = [] then [] else [saveRequest st])"
    by (cases r) (simp_all add: handleSaveAttendance_def)
  moreover have "selectedClassId st = [] \<longrightarrow>
      handleSaveAttendance r st = (st, [ToastError ''Please select a class''])"
    by (simp add: handleSaveAttendance_def)
  moreover have "\<not> hasChanges st \<longrightarrow> saveDisabled st"
    by (simp add: saveDisabled_def)
  ultimately show ?thesis by blast
qed

theorem C3_empty_submission_gate_witness:
  "selectedClassId (initial ''2024-05-01'') = [] \<and> \<not> hasChanges (initial ''2024-05-01'')
   \<and> saveDisabled (initial ''2024-05-01'')
   \<and> handleSaveAttendance (Resolved ()) (initial ''2024-05-01'')
       = (initial ''2024-05-01'', [ToastError ''Please select a class''])
   \<and> selectedClassId loaded1 \<noteq> [] \<and> \<not> hasChanges loaded1 \<and> saveDisabled loaded1
   \<and> posted (snd (handleSaveAttendance (Resolved ()) loaded1)) = [saveRequest loaded1]
   \<and> selectedClassId marked_empty \<noteq> [] \<and> dirtyEntries marked_empty = []
   \<and> posted (snd (handleSaveAttendance (Rejected OtherError) marked_empty))
       = [saveRequest marked_empty]"
proof -
  have i: "selectedClassId (initial ''2024-05-01'') = []" "\<not> hasChanges (initial ''2024-05-01'')"
    by (simp_all add: initial_def)
  have l: "selectedClassId loaded1 \<noteq> []" "\<not> hasChanges loaded1"
    by (simp_all add: loaded1_eq)
  have m: "selectedClassId marked_empty \<noteq> []" "dirtyEntries marked_empty = []"
    by (simp_all add: marked_empty_eq dirtyEntries_def)
  from C3_empty_submission_gate [of "Resolved ()" "initial ''2024-05-01''"] i
  have a: "saveDisabled (initial ''2024-05-01'')"
    "handleSaveAttendance (Resolved ()) (initial ''2024-05-01'')
       = (initial ''2024-05-01'', [ToastError ''Please select a class''])"
    by blast+
  from C3_empty_submission_gate [of "Resolved ()" loaded1] l
  have b: "saveDisabled loaded1"
    "posted (snd (handleSaveAttendance (Resolved ()) loaded1)) = [saveRequest loaded1]"
    by simp_all
  from C3_empty_submission_gate [of "Rejected OtherError" marked_empty] m
  have c: "posted (snd (handleSaveAttendance (Rejected OtherError) marked_empty))
       = [saveRequest marked_empty]"
    by simp
  from i l m a b c show ?thesis by simp
qed

section \<open>Editing one record\<close>

text \<open>
  C4, as stated, fails: \<^verbatim>\<open>handleStatusChange\<close> with an id that no record has returns
  normally and sets the change flag, so the buffer is not what it was.
\<close>

theorem C4_counterexample:
  "''unknown-id'' \<notin> set (map id' (students loaded1))
   \<and> \<not> hasChanges loaded1
   \<and> hasChanges (handleStatusChange ''unknown-id'' PRESENT loaded1)
   \<and> handleStatusChange ''unknown-id'' PRESENT loaded1 \<noteq> loaded1"
  by (simp add: loaded1_eq handleStatusChange_def)

text \<open>
  C4, amended: for an id that no record of the buffer has, \<^verbatim>\<open>handleStatusChange\<close>
  raises nothing and leaves every record as it was; the only cell it writes is the
  change flag, which it sets as on every call.
\<close>

theorem C4_unknown_id_keeps_records:
  assumes "i \<notin> set (map id' (students st))"
  shows "handleStatusChange i s st = st\<lparr>hasChanges := True\<rparr>"
  using map_status_unknown [OF assms, of s] by (simp add: handleStatusChange_def)

theorem C4_unknown_id_keeps_records_witness:
  "''unknown-id'' \<notin> set (map id' (students loaded13))
   \<and> students (handleStatusChange ''unknown-id'' PRESENT loaded13) = students loaded13"
proof -
  have u: "''unknown-id'' \<notin> set (map id' (students loaded13))"
    by (simp add: loaded13_eq)
  show ?thesis using u C4_unknown_id_keeps_records [OF u, of PRESENT] by simp
qed

section \<open>The change flag along a session\<close>




section \<open>Loading a roster\<close>

text \<open>
  C6: the code at \<open>session_reload\<close>. The roster of the second class replaces the buffer,
  one record per member, but \<^verbatim>\<open>loadStudents\<close> does not clear the change flag the
  earlier edit set: the freshly loaded record counts as dirty.
\<close>

theorem C6_reload_keeps_change_flag:
  "students (fst (run session_reload (initial ''2024-05-01''))) = [toStudentAttendance s3]
   \<and> hasChanges (fst (run session_reload (initial ''2024-05-01'')))
   \<and> dirtyEntries (fst (run session_reload (initial ''2024-05-01''))) = [toStudentAttendance s3]"
  by (simp add: session_reload_def eval_defs)

section \<open>Resubmission\<close>

text \<open>
  C7, as stated, fails: in \<open>session_resubmit\<close> the server has accepted a submission for
  class \<^verbatim>\<open>c1\<close> and the date, and the second save for the same class and date, without
  \<^verbatim>\<open>allowOverride\<close>, is sent too.
\<close>

theorem C7_counterexample:
  "map (\<lambda>q. (classId q, sectionId q, requestDate q, allowOverride q))
       (posted (snd (run session_resubmit (initial ''2024-05-01''))))
     = [(''c1'', None, Some ''2024-05-01'', None), (''c1'', None, Some ''2024-05-01'', None)]"
  by (simp add: session_resubmit_def eval_defs)

text \<open>
  C7, amended: the component makes no resubmission check of its own. With a class
  selected, \<^verbatim>\<open>handleSaveAttendance\<close> always sends its one request, never with
  \<^verbatim>\<open>allowOverride\<close>, whether or not an earlier submission exists; the decision is the
  server's, and when the server rejects, every record and the change flag stay as they
  were.
\<close>

theorem C7_no_client_side_override_check:
  assumes "selectedClassId st \<noteq> []"
  shows "(\<exists>q. posted (snd (handleSaveAttendance r st)) = [q] \<and> allowOverride q = None)
   \<and> students (fst (handleSaveAttendance (Rejected e) st)) = students st
   \<and> hasChanges (fst (handleSaveAttendance (Rejected e) st)) = hasChanges st"
proof -
  have "posted (snd (handleSaveAttendance r st)) = [saveRequest st]"
    using assms by (rule posted_handleSaveAttendance)
  moreover have "allowOverride (saveRequest st) = None"
    by (simp add: saveRequest_def)
  ultimately show ?thesis
    by (simp add: handleSaveAttendance_rejected_students handleSaveAttendance_rejected_hasChanges)
qed

theorem C7_no_client_side_override_check_witness:
  "selectedClassId (handleStatusChange ''s1'' LATE loaded1) \<noteq> []
   \<and> length (posted (snd (handleSaveAttendance (Rejected OtherError)
                             (handleStatusChange ''s1'' LATE loaded1)))) = 1
   \<and> hasChanges (fst (handleSaveAttendance (Rejected OtherError)
                        (handleStatusChange ''s1'' LATE loaded1)))"
proof -
  let ?st = "handleStatusChange ''s1'' LATE loaded1"
  have c: "selectedClassId ?st \<noteq> []"
    by (simp add: loaded1_eq handleStatusChange_def)
  have h: "hasChanges ?st"
    by (simp add: handleStatusChange_def)
  from C7_no_client_side_override_check [OF c, of "Rejected OtherError" OtherError]
  obtain q where "posted (snd (handleSaveAttendance (Rejected OtherError) ?st)) = [q]"
    and "hasChanges (fst (handleSaveAttendance (Rejected OtherError) ?st)) = hasChanges ?st"
    by blast
  with c h show ?thesis by simp
qed

section \<open>Bulk marking\<close>

text \<open>
  C8: after \<^verbatim>\<open>handleMarkAll\<close> with a status, the dirty records are as many as the
  roster has members, and every record of the buffer has that status.
\<close>

theorem C8_applyToAll:
  "length (dirtyEntries (fst (handleMarkAll s st))) = length (students st)
   \<and> (\<forall>r \<in> set (students (fst (handleMarkAll s st))). status r = Some s)"
  by (simp add: handleMarkAll_def dirtyEntries_def)

theorem C8_applyToAll_witness:
  "length (dirtyEntries (fst (handleMarkAll ABSENT loaded13))) = 2
   \<and> students loaded13 \<noteq> []
   \<and> map status (students (fst (handleMarkAll ABSENT loaded13))) = [Some ABSENT, Some ABSENT]"
  using C8_applyToAll [of ABSENT loaded13]
  by (simp add: loaded13_eq handleMarkAll_def)

section \<open>Initial status\<close>

text \<open>
  C9, as stated, fails: \<^verbatim>\<open>s2\<close> comes without a default, and after the load its record
  has no status, not \<^verbatim>\<open>PRESENT\<close>.
\<close>

theorem C9_counterexample:
  "defaultStatus s2 = None
   \<and> map status (students (fst (loadStudents (Resolved (Some [s1, s2]))
                                  (selectClass ''c1'' (initial ''2024-05-01'')))))
       = [Some PRESENT, None]"
  by (simp add: eval_defs)

text \<open>
  C9, amended: after a load the record of every roster member carries the member's id
  and, as its status, exactly the \<^verbatim>\<open>defaultStatus\<close> the server sent for that member;
  the component applies no fallback of its own. When the change flag was clear before
  the load, the dirty set is empty after it.
\<close>

theorem C9_initial_status_is_server_default:
  "length (students (fst (loadStudents (Resolved (Some R)) st))) = length R
   \<and> (\<forall>k < length R.
        id' (students (fst (loadStudents (Resolved (Some R)) st)) ! k) = AttendanceStudent.id' (R ! k)
      \<and> status (students (fst (loadStudents (Resolved (Some R)) st)) ! k) = defaultStatus (R ! k))
   \<and> (\<not> hasChanges st \<longrightarrow> dirtyEntries (fst (loadStudents (Resolved (Some R)) st)) = [])"
  by (simp add: toStudentAttendance_def dirtyEntries_def)

theorem C9_initial_status_is_server_default_witness:
  "(1::nat) < length [s1, s2] \<and> \<not> hasChanges (selectClass ''c1'' (initial ''2024-05-01''))
   \<and> status (students (fst (loadStudents (Resolved (Some [s1, s2]))
                              (selectClass ''c1'' (initial ''2024-05-01'')))) ! 1)
       = defaultStatus s2
   \<and> dirtyEntries (fst (loadStudents (Resolved (Some [s1, s2]))
                          (selectClass ''c1'' (initial ''2024-05-01'')))) = []"
proof -
  let ?st = "selectClass ''c1'' (initial ''2024-05-01'')"
  have k: "(1::nat) < length [s1, s2]" by simp
  have n: "\<not> hasChanges ?st" by (simp add: initial_def selectClass_def)
  from C9_initial_status_is_server_default [of "[s1, s2]" ?st] k
  have a: "status (students (fst (loadStudents (Resolved (Some [s1, s2])) ?st)) ! 1)
            = defaultStatus ([s1, s2] ! 1)"
    by blast
  from C9_initial_status_is_server_default [of "[s1, s2]" ?st] n
  have b: "dirtyEntries (fst (loadStudents (Resolved (Some [s1, s2])) ?st)) = []"
    by blast
  from k n a b show ?thesis by simp
qed

section \<open>The frame of a status change\<close>

text \<open>
  C10: \<^verbatim>\<open>handleStatusChange\<close> keeps the buffer's length and order; at every position
  the record keeps its id, roll number, first name and last name; a record with the
  given id gets the given status, and a record with another id is unchanged in all
  fields.
\<close>

theorem C10_setStatus_frame:
  "length (students (handleStatusChange i s st)) = length (students st)
   \<and> (\<forall>k < length (students st).
        id' (students (handleStatusChange i s st) ! k) = id' (students st ! k)
      \<and> rollNumber (students (handleStatusChange i s st) ! k) = rollNumber (students st ! k)
      \<and> firstName (students (handleStatusChange i s st) ! k) = firstName (students st ! k)
      \<and> lastName (students (handleStatusChange i s st) ! k) = lastName (students st ! k)
      \<and> (id' (students st ! k) = i \<longrightarrow>
           status (students (handleStatusChange i s st) ! k) = Some s)
      \<and> (id' (students st ! k) \<noteq> i \<longrightarrow>
           students (handleStatusChange i s st) ! k = students st ! k))"
  by (simp add: handleStatusChange_def)

theorem C10_setStatus_frame_witness:
  "(0::nat) < length (students loaded13) \<and> (1::nat) < length (students loaded13)
   \<and> id' (students loaded13 ! 0) = ''s1'' \<and> id' (students loaded13 ! 1) \<noteq> ''s1''
   \<and> students (handleStatusChange ''s1'' ABSENT loaded13) ! 0
       = \<lparr>id' = ''s1'', rollNumber = ''1'', firstName = ''Ada'', lastName = ''Khan'',
          status = Some ABSENT\<rparr>
   \<and> students (handleStatusChange ''s1'' ABSENT loaded13) ! 1 = students loaded13 ! 1"
  using C10_setStatus_frame [of "''s1''" ABSENT loaded13]
  by (simp add: loaded13_eq handleStatusChange_def)

end
